theory Spec2Isabelle
  imports Complex_Main "HOL-Library.AList"
begin

section \<open>The training script of c2s: \<^verbatim>\<open>scripts/c2s-train.py\<close>\<close>

text \<open>
  The script has one function, \<^verbatim>\<open>main(argv)\<close>. It parses the command line, seeds the
  random generators, loads and aggregates the datasets, labels the entries with cell
  numbers, picks the cells to train on, calls the trainer and stores the experiment.

  \<open>main\<close> below is the script from line 58 on, a function of the parsed namespace
  \<^verbatim>\<open>args\<close>; \<open>main_argv\<close> puts the parser in front of it, for command lines made
  of positional arguments. The functions \<^verbatim>\<open>main\<close> imports to load, preprocess, select,
  train and seed are parameters, collected in the record \<open>env\<close>; \<^verbatim>\<open>numpy.unique\<close>
  and \<^verbatim>\<open>os.path.join\<close> are written out. The effects of \<^verbatim>\<open>main\<close> are a state: the
  two seeded generators, the lines it prints, the calls it makes to \<^verbatim>\<open>train\<close>, and
  the files it writes. A Python exception is a value of type \<open>error\<close>, returned with
  the state reached when it was raised.
\<close>

subsection \<open>Data\<close>

datatype error =
  IndexError | KeyError | ValueError | InvalidArgument | CollaboratorFailure | IOFailure
  | SystemExit int

text \<open>
  A recording entry is a Python \<^verbatim>\<open>dict\<close>, and a list of entries holds references
  to such objects. \<open>obj\<close> is the identity of the object an element refers to: the same
  object may stand at several positions of a list, and these elements then have the same
  identity and the same contents. The script reads and writes one key only,
  \<^verbatim>\<open>'cell_num'\<close>, an integer when present; \<open>cell_num e = None\<close> says the key is
  absent. All other keys are carried along untouched in \<open>other_keys\<close>.
\<close>

record 'a entry =
  obj :: nat
  cell_num :: "int option"
  other_keys :: 'a

text \<open>
  The namespace returned by the argument parser, lines 27 to 56. The field
  \<^verbatim>\<open>args.output\<close> is \<open>output_target\<close> here. The three \<^verbatim>\<open>float\<close> options are only
  handed on, never computed with.
\<close>

record args =
  dataset :: "string list"
  output_target :: string
  num_components :: int
  num_features :: int
  num_models :: int
  keep_all :: int
  finetune :: int
  num_train :: int
  num_valid :: int
  var_explained :: real
  window_length :: real
  regularize :: real
  preprocess :: int
  seed :: int
  verbosity :: int

text \<open>The keyword arguments of the call of \<^verbatim>\<open>train\<close>, lines 92 to 104.\<close>

record train_kwargs =
  kw_num_valid :: int
  kw_num_models :: int
  kw_var_explained :: real
  kw_window_length :: real
  kw_keep_all :: int
  kw_finetune :: int
  kw_model_parameters :: "(string \<times> int) list"
  kw_training_parameters :: "(string \<times> int) list"
  kw_regularize :: real
  kw_verbosity :: int

text \<open>
  The process has two generators, the one of \<^verbatim>\<open>numpy.random\<close> and the one of
  \<^verbatim>\<open>cmt.utils\<close>. Seeding one replaces its state by a function of the seed, or
  raises: \<^verbatim>\<open>numpy.random.seed\<close> raises \<open>ValueError\<close> for a seed of \<open>2\<^sup>3\<^sup>2\<close> or more.
\<close>

record ('n, 'c) generators =
  numpy_random :: 'n
  cmt_utils :: 'c

text \<open>
  What the experiment holds under its three keys: the namespace, the training cells, and
  the models returned by the trainer (of a type \<open>'m\<close> the script never looks into).
\<close>

datatype 'm item = ArgsItem args | CellsItem "int list" | ModelsItem 'm

type_synonym 'm experiment_record = "(string \<times> 'm item) list"

record ('a, 'n, 'c, 'm) state =
  generators :: "('n, 'c) generators"
  printed :: "string list"
  train_calls :: "('a entry list \<times> train_kwargs) list"
  files :: "string \<rightharpoonup> 'm experiment_record"

text \<open>
  The collaborators of \<^verbatim>\<open>main\<close>. Each is a function of its arguments and of the
  generators, and returns a result with the generators it leaves behind, or raises.
  \<open>os_path_isdir\<close> is the set of existing directories, \<open>can_write\<close> the paths at which
  a write succeeds.
\<close>

record ('a, 'n, 'c, 'm) env =
  numpy_random_seed :: "int \<Rightarrow> error + 'n"
  cmt_utils_seed :: "int \<Rightarrow> error + 'c"
  c2s_load_data :: "string \<Rightarrow> ('n, 'c) generators \<Rightarrow> error + ('a entry list \<times> ('n, 'c) generators)"
  c2s_preprocess :: "'a entry list \<Rightarrow> int \<Rightarrow> ('n, 'c) generators
    \<Rightarrow> error + ('a entry list \<times> ('n, 'c) generators)"
  cmt_random_select :: "int \<Rightarrow> int \<Rightarrow> ('n, 'c) generators \<Rightarrow> error + (int list \<times> ('n, 'c) generators)"
  c2s_train :: "'a entry list \<Rightarrow> train_kwargs \<Rightarrow> ('n, 'c) generators
    \<Rightarrow> error + ('m \<times> ('n, 'c) generators)"
  os_path_isdir :: "string \<Rightarrow> bool"
  can_write :: "string \<Rightarrow> bool"

subsection \<open>Sequencing with exceptions\<close>

type_synonym ('r, 's) run = "'s \<Rightarrow> (error + 'r) \<times> 's"

definition returnE :: "'r \<Rightarrow> ('r, 's) run" where
  "returnE x s = (Inr x, s)"

definition bindE :: "('q, 's) run \<Rightarrow> ('q \<Rightarrow> ('r, 's) run) \<Rightarrow> ('r, 's) run" where
  "bindE m f s = (case m s of (Inl e, s') \<Rightarrow> (Inl e, s') | (Inr x, s') \<Rightarrow> f x s')"

definition lift :: "error + 'r \<Rightarrow> ('r, 's) run" where
  "lift r s = (r, s)"

definition call ::
  "(('n, 'c) generators \<Rightarrow> error + ('r \<times> ('n, 'c) generators)) \<Rightarrow> ('r, ('a, 'n, 'c, 'm) state) run"
  where
  "call f s =
     (case f (generators s) of
        Inl e \<Rightarrow> (Inl e, s)
      | Inr (x, g) \<Rightarrow> (Inr x, s\<lparr>generators := g\<rparr>))"

subsection \<open>The steps of \<^verbatim>\<open>main\<close>\<close>

text \<open>
  Lines 59 to 61: when the seed is above \<open>-1\<close>, the generator of \<^verbatim>\<open>numpy.random\<close>
  is seeded, then the one of \<^verbatim>\<open>cmt.utils\<close>. Either call may raise; the first to do so
  ends the run, with the generators seeded before it already changed.
\<close>

definition seed_numpy :: "('a, 'n, 'c, 'm) env \<Rightarrow> int \<Rightarrow> (unit, ('a, 'n, 'c, 'm) state) run" where
  "seed_numpy env n s =
     (case numpy_random_seed env n of
        Inl e \<Rightarrow> (Inl e, s)
      | Inr g \<Rightarrow> (Inr (), s\<lparr>generators := (generators s)\<lparr>numpy_random := g\<rparr>\<rparr>))"

definition seed_cmt :: "('a, 'n, 'c, 'm) env \<Rightarrow> int \<Rightarrow> (unit, ('a, 'n, 'c, 'm) state) run" where
  "seed_cmt env n s =
     (case cmt_utils_seed env n of
        Inl e \<Rightarrow> (Inl e, s)
      | Inr g \<Rightarrow> (Inr (), s\<lparr>generators := (generators s)\<lparr>cmt_utils := g\<rparr>\<rparr>))"

definition seed_generators ::
  "('a, 'n, 'c, 'm) env \<Rightarrow> args \<Rightarrow> (unit, ('a, 'n, 'c, 'm) state) run" where
  "seed_generators env a =
     (if seed a > -1
      then bindE (seed_numpy env (seed a)) (\<lambda>_. seed_cmt env (seed a))
      else returnE ())"

text \<open>Line 66.\<close>

definition print :: "string \<Rightarrow> (unit, ('a, 'n, 'c, 'm) state) run" where
  "print line s = (Inr (), s\<lparr>printed := printed s @ [line]\<rparr>)"

text \<open>Lines 69 to 71: the loop over the dataset paths, \<open>data\<close> the list extended so far.\<close>

fun load_all ::
  "('a, 'n, 'c, 'm) env \<Rightarrow> string list \<Rightarrow> 'a entry list \<Rightarrow> ('a entry list, ('a, 'n, 'c, 'm) state) run"
  where
  "load_all env [] data = returnE data"
| "load_all env (filepath # rest) data =
     bindE (call (c2s_load_data env filepath)) (\<lambda>loaded. load_all env rest (data @ loaded))"

text \<open>
  Line 79, \<^verbatim>\<open>entry['cell_num'] = k\<close>: the assignment changes the object \<open>r\<close> that
  \<^verbatim>\<open>entry\<close> refers to, so every element of the list that refers to it.
\<close>

definition assign_cell_num :: "nat \<Rightarrow> int \<Rightarrow> 'a entry list \<Rightarrow> 'a entry list" where
  "assign_cell_num r k data =
     map (\<lambda>entry. if obj entry = r then entry\<lparr>cell_num := Some k\<rparr> else entry) data"

text \<open>
  Lines 76 to 79, the cell registry. \<^verbatim>\<open>data[0]\<close> raises on the empty list. The test
  looks at the first entry only; when it has no cell number, the loop runs over the
  positions in order and assigns each position to the object found there.
\<close>

definition cell_registry :: "'a entry list \<Rightarrow> error + 'a entry list" where
  "cell_registry data =
     (case data of
        [] \<Rightarrow> Inl IndexError
      | first # _ \<Rightarrow>
          if cell_num first = None
          then Inr (fold (\<lambda>(k, entry). assign_cell_num (obj entry) (int k)) (enumerate 0 data) data)
          else Inr data)"

text \<open>
  Line 82. The comprehension reads \<^verbatim>\<open>entry['cell_num']\<close> of every entry and raises
  at the first one without the key.
\<close>

fun cell_nums :: "'a entry list \<Rightarrow> error + int list" where
  "cell_nums [] = Inr []"
| "cell_nums (entry # rest) =
     (case cell_num entry of
        None \<Rightarrow> Inl KeyError
      | Some c \<Rightarrow> (case cell_nums rest of Inl e \<Rightarrow> Inl e | Inr cs \<Rightarrow> Inr (c # cs)))"

text \<open>
  \<^verbatim>\<open>numpy.unique\<close> first turns the list of Python integers into an array, whose
  element type it finds from the values: 64-bit signed when all fit, 64-bit unsigned when
  all are non-negative and fit, double-precision floats when each fits one of the two
  but not all the same one, and Python objects otherwise. It then returns the sorted
  distinct elements of the array. Only the floats lose anything: an integer becomes the
  nearest double, ties going to the even significand, and a double of this size is again
  an integer. \<open>ulp m\<close> is the distance between neighbouring doubles at magnitude \<open>m\<close>.
\<close>

datatype dtype = Int64 | UInt64 | Float64 | Object

definition fits_int64 :: "int \<Rightarrow> bool" where
  "fits_int64 x = (- (2 ^ 63) \<le> x \<and> x < 2 ^ 63)"

definition fits_uint64 :: "int \<Rightarrow> bool" where
  "fits_uint64 x = (0 \<le> x \<and> x < 2 ^ 64)"

definition array_dtype :: "int list \<Rightarrow> dtype" where
  "array_dtype xs =
     (if list_all fits_int64 xs then Int64
      else if list_all fits_uint64 xs then UInt64
      else if list_all (\<lambda>x. fits_int64 x \<or> fits_uint64 x) xs then Float64
      else Object)"

fun ulp :: "nat \<Rightarrow> nat" where
  "ulp m = (if m < 2 ^ 53 then 1 else 2 * ulp (m div 2))"

declare ulp.simps [simp del]

definition to_float64 :: "int \<Rightarrow> int" where
  "to_float64 x =
     (let u = int (ulp (nat \<bar>x\<bar>));
          q = \<bar>x\<bar> div u;
          r = \<bar>x\<bar> mod u;
          q' = (if 2 * r > u \<or> (2 * r = u \<and> odd q) then q + 1 else q)
      in sgn x * (q' * u))"

definition unique :: "int list \<Rightarrow> int list" where
  "unique xs =
     (if array_dtype xs = Float64 then sort (remdups (map to_float64 xs))
      else sort (remdups xs))"

definition collect_cell_ids :: "'a entry list \<Rightarrow> error + int list" where
  "collect_cell_ids data =
     (case cell_nums data of Inl e \<Rightarrow> Inl e | Inr cs \<Rightarrow> Inr (unique cs))"

text \<open>
  Lines 85 to 89, the choice of the training cells: \<^verbatim>\<open>random_select\<close> is called with
  the requested number and the number of cell ids; otherwise the result is
  \<^verbatim>\<open>range(len(cell_ids))\<close>.
\<close>

definition pick_training_cells ::
  "('a, 'n, 'c, 'm) env \<Rightarrow> args \<Rightarrow> int list \<Rightarrow> (int list, ('a, 'n, 'c, 'm) state) run" where
  "pick_training_cells env a cell_ids =
     (if num_train a > 0
      then call (cmt_random_select env (num_train a) (int (length cell_ids)))
      else returnE (map int [0..<length cell_ids]))"

text \<open>
  Line 91, the comprehension handed to \<^verbatim>\<open>train\<close>: the entries whose cell number is
  \<^verbatim>\<open>in training_cells\<close>.
\<close>

fun training_entries :: "int list \<Rightarrow> 'a entry list \<Rightarrow> error + 'a entry list" where
  "training_entries training_cells [] = Inr []"
| "training_entries training_cells (entry # rest) =
     (case cell_num entry of
        None \<Rightarrow> Inl KeyError
      | Some c \<Rightarrow>
          (case training_entries training_cells rest of
             Inl e \<Rightarrow> Inl e
           | Inr kept \<Rightarrow> Inr (if c \<in> set training_cells then entry # kept else kept)))"

text \<open>Lines 92 to 104, the keyword arguments.\<close>

definition make_kwargs :: "args \<Rightarrow> train_kwargs" where
  "make_kwargs a =
     \<lparr>kw_num_valid = num_valid a,
      kw_num_models = num_models a,
      kw_var_explained = var_explained a,
      kw_window_length = window_length a,
      kw_keep_all = keep_all a,
      kw_finetune = finetune a,
      kw_model_parameters =
        [(''num_components'', num_components a), (''num_features'', num_features a)],
      kw_training_parameters = [(''verbosity'', 1)],
      kw_regularize = regularize a,
      kw_verbosity = verbosity a\<rparr>"

text \<open>The call of \<^verbatim>\<open>train\<close>: the call is recorded, then the trainer runs.\<close>

definition call_train ::
  "('a, 'n, 'c, 'm) env \<Rightarrow> 'a entry list \<Rightarrow> train_kwargs \<Rightarrow> ('m, ('a, 'n, 'c, 'm) state) run" where
  "call_train env entries kw s =
     call (c2s_train env entries kw) (s\<lparr>train_calls := train_calls s @ [(entries, kw)]\<rparr>)"

text \<open>\<^verbatim>\<open>os.path.join\<close> of \<^verbatim>\<open>posixpath\<close>, for two components.\<close>

definition os_path_join :: "string \<Rightarrow> string \<Rightarrow> string" where
  "os_path_join p b =
     (if b \<noteq> [] \<and> hd b = CHR ''/'' then b
      else if p = [] \<or> last p = CHR ''/'' then p @ b
      else p @ ''/'' @ b)"

text \<open>
  Modelled from the spec: the class \<^verbatim>\<open>Experiment\<close> of \<^verbatim>\<open>c2s.experiment\<close>, which is not
  among the sources. A new experiment is an empty mapping from string keys to values; an
  item assignment sets one key; \<^verbatim>\<open>save\<close> writes the mapping at the path it is given,
  over any file already there, or fails with \<open>IOFailure\<close>.
\<close>

definition Experiment :: "'m experiment_record" where
  "Experiment = []"

definition setitem :: "string \<Rightarrow> 'm item \<Rightarrow> 'm experiment_record \<Rightarrow> 'm experiment_record" where
  "setitem key v x = AList.update key v x"

definition Experiment_save ::
  "('a, 'n, 'c, 'm) env \<Rightarrow> 'm experiment_record \<Rightarrow> string \<Rightarrow> (unit, ('a, 'n, 'c, 'm) state) run"
  where
  "Experiment_save env x path s =
     (if can_write env path then (Inr (), s\<lparr>files := (files s)(path \<mapsto> x)\<rparr>)
      else (Inl IOFailure, s))"

subsection \<open>\<^verbatim>\<open>main\<close>\<close>

text \<open>Lines 69 to 74: the entries of all datasets in one list, preprocessed on request.\<close>

definition aggregate ::
  "('a, 'n, 'c, 'm) env \<Rightarrow> args \<Rightarrow> ('a entry list, ('a, 'n, 'c, 'm) state) run" where
  "aggregate env a =
     bindE (load_all env (dataset a) []) (\<lambda>data.
     if preprocess a \<noteq> 0 then call (c2s_preprocess env data (verbosity a)) else returnE data)"

text \<open>Lines 76 to 89: the cell registry, the cell ids, the training cells.\<close>

definition select_cells ::
  "('a, 'n, 'c, 'm) env \<Rightarrow> args \<Rightarrow> ('a entry list \<times> int list, ('a, 'n, 'c, 'm) state) run" where
  "select_cells env a =
     bindE (aggregate env a) (\<lambda>data.
     bindE (lift (cell_registry data)) (\<lambda>data.
     bindE (lift (collect_cell_ids data)) (\<lambda>cell_ids.
     bindE (pick_training_cells env a cell_ids) (\<lambda>training_cells.
     returnE (data, training_cells)))))"

text \<open>Lines 91 to 115: training, the three items of the experiment, the write.\<close>

definition train_and_store ::
  "('a, 'n, 'c, 'm) env \<Rightarrow> args \<Rightarrow> 'm experiment_record \<Rightarrow> 'a entry list \<Rightarrow> int list
    \<Rightarrow> (int, ('a, 'n, 'c, 'm) state) run" where
  "train_and_store env a experiment data training_cells =
     bindE (lift (training_entries training_cells data)) (\<lambda>kept.
     bindE (call_train env kept (make_kwargs a)) (\<lambda>models.
     let experiment = setitem ''args'' (ArgsItem a) experiment;
         experiment = setitem ''training_cells'' (CellsItem training_cells) experiment;
         experiment = setitem ''models'' (ModelsItem models) experiment
     in
     bindE (if os_path_isdir env (output_target a)
            then Experiment_save env experiment (os_path_join (output_target a) ''model.xpck'')
            else Experiment_save env experiment (output_target a)) (\<lambda>_.
     returnE 0)))"

text \<open>Lines 58 to 115.\<close>

definition main :: "('a, 'n, 'c, 'm) env \<Rightarrow> args \<Rightarrow> (int, ('a, 'n, 'c, 'm) state) run" where
  "main env a =
     bindE (seed_generators env a) (\<lambda>_.
     let experiment = Experiment in
     if dataset a = []
     then bindE (print ''You have to specify at least 1 dataset.'') (\<lambda>_. returnE 0)
     else bindE (select_cells env a)
            (\<lambda>(data, training_cells). train_and_store env a experiment data training_cells))"

text \<open>
  Lines 25 to 56, for a command line \<^verbatim>\<open>argv[1:]\<close> in which no argument starts with
  \<^verbatim>\<open>-\<close>, so that all of them are positional (any other command line is left out:
  \<open>None\<close>). The parser has two positional arguments, \<^verbatim>\<open>dataset\<close> with
  \<^verbatim>\<open>nargs='+'\<close> and \<^verbatim>\<open>output\<close>: with fewer than two arguments on the command
  line it reports the missing ones on the error stream, which the state does not hold,
  and leaves the process with status 2; otherwise the last argument is the output, those
  before it are the datasets, and every option has its default.
\<close>

definition parse_positionals :: "string list \<Rightarrow> (error + args) option" where
  "parse_positionals argv =
     (if list_ex (\<lambda>arg. arg \<noteq> [] \<and> hd arg = CHR ''-'') argv then None
      else if length argv < 2 then Some (Inl (SystemExit 2))
      else Some (Inr
        \<lparr>dataset = butlast argv, output_target = last argv,
         num_components = 3, num_features = 2, num_models = 4, keep_all = 1, finetune = 0,
         num_train = 0, num_valid = 0, var_explained = 95, window_length = 1000,
         regularize = 0, preprocess = 0, seed = - 1, verbosity = 1\<rparr>))"

definition main_argv ::
  "('a, 'n, 'c, 'm) env \<Rightarrow> string list \<Rightarrow> ('a, 'n, 'c, 'm) state
    \<Rightarrow> ((error + int) \<times> ('a, 'n, 'c, 'm) state) option" where
  "main_argv env argv s =
     (case parse_positionals argv of
        None \<Rightarrow> None
      | Some (Inl e) \<Rightarrow> Some (Inl e, s)
      | Some (Inr a) \<Rightarrow> Some (main env a s))"

subsection \<open>What a step leaves alone\<close>

text \<open>
  \<open>unchanged s s'\<close>: nothing was printed, no trainer was called and no file was written
  between \<open>s\<close> and \<open>s'\<close>. A run is \<open>quiet\<close> when it leaves every state unchanged in
  this sense; its result is \<open>generators_only\<close> when the result and the generators it
  leaves behind depend on nothing but the generators it starts from.
\<close>

definition unchanged :: "('a, 'n, 'c, 'm) state \<Rightarrow> ('a, 'n, 'c, 'm) state \<Rightarrow> bool" where
  "unchanged s s' =
     (printed s' = printed s \<and> train_calls s' = train_calls s \<and> files s' = files s)"

definition quiet :: "('r, ('a, 'n, 'c, 'm) state) run \<Rightarrow> bool" where
  "quiet m = (\<forall>s r s'. m s = (r, s') \<longrightarrow> unchanged s s')"

definition generators_only :: "('r, ('a, 'n, 'c, 'm) state) run \<Rightarrow> bool" where
  "generators_only m =
     (\<forall>s t. generators s = generators t \<longrightarrow>
        fst (m s) = fst (m t) \<and> generators (snd (m s)) = generators (snd (m t)))"

text \<open>The last position of an object in a list of identities.\<close>

fun last_index :: "nat \<Rightarrow> nat list \<Rightarrow> nat option" where
  "last_index r [] = None"
| "last_index r (x # xs) =
     (case last_index r xs of
        Some k \<Rightarrow> Some (Suc k)
      | None \<Rightarrow> if x = r then Some 0 else None)"

text \<open>The path written at lines 110 to 113.\<close>

definition store_path :: "('a, 'n, 'c, 'm) env \<Rightarrow> args \<Rightarrow> string" where
  "store_path env a =
     (if os_path_isdir env (output_target a) then os_path_join (output_target a) ''model.xpck''
      else output_target a)"

text \<open>
  The spec's reading of line 91, to be compared with \<open>training_entries\<close>: the training
  cells are indices into the sorted cell ids, and an entry is kept when its cell number
  is the cell id at one of these indices.
\<close>

definition spec_training_entries :: "int list \<Rightarrow> int list \<Rightarrow> 'a entry list \<Rightarrow> 'a entry list" where
  "spec_training_entries cell_ids training_cells data =
     filter (\<lambda>entry. \<exists>i \<in> set training_cells.
        0 \<le> i \<and> nat i < length cell_ids \<and> cell_num entry = Some (cell_ids ! nat i)) data"

subsection \<open>The selection primitive\<close>

text \<open>
  Modelled from the spec: \<^verbatim>\<open>random_select(k, n)\<close> of \<^verbatim>\<open>cmt.utils\<close>, which is not
  among the sources. The spec has it fail with \<open>InvalidArgument\<close> when more indices are
  requested than there are, whatever the generators hold.
\<close>

definition rejects_oversized :: "('a, 'n, 'c, 'm) env \<Rightarrow> bool" where
  "rejects_oversized env =
     (\<forall>k n g. n < k \<longrightarrow> cmt_random_select env k n g = Inl InvalidArgument)"

subsection \<open>Concrete inputs\<close>

text \<open>
  Lists of entries: one labelled with the cell numbers 1, 1 and 2; one without labels;
  one where only the second entry has a label; one that holds the same unlabelled object
  at both positions and another object between them; one labelled with cell numbers at
  the edge of the 64-bit range.
\<close>

definition labelled :: "string entry list" where
  "labelled =
     [\<lparr>obj = 0, cell_num = Some 1, other_keys = ''a''\<rparr>,
      \<lparr>obj = 1, cell_num = Some 1, other_keys = ''b''\<rparr>,
      \<lparr>obj = 2, cell_num = Some 2, other_keys = ''c''\<rparr>]"

definition unlabelled :: "string entry list" where
  "unlabelled =
     [\<lparr>obj = 0, cell_num = None, other_keys = ''a''\<rparr>,
      \<lparr>obj = 1, cell_num = None, other_keys = ''b''\<rparr>]"

definition half_labelled :: "string entry list" where
  "half_labelled =
     [\<lparr>obj = 0, cell_num = None, other_keys = ''a''\<rparr>,
      \<lparr>obj = 1, cell_num = Some 7, other_keys = ''b''\<rparr>]"

definition shared :: "string entry list" where
  "shared =
     [\<lparr>obj = 0, cell_num = None, other_keys = ''a''\<rparr>,
      \<lparr>obj = 1, cell_num = None, other_keys = ''b''\<rparr>,
      \<lparr>obj = 0, cell_num = None, other_keys = ''a''\<rparr>]"

definition wide :: "string entry list" where
  "wide =
     [\<lparr>obj = 0, cell_num = Some (2 ^ 63), other_keys = ''a''\<rparr>,
      \<lparr>obj = 1, cell_num = Some (2 ^ 63 + 1), other_keys = ''b''\<rparr>,
      \<lparr>obj = 2, cell_num = Some (- 1), other_keys = ''c''\<rparr>]"

definition demo_load_data ::
  "string \<Rightarrow> (nat, nat) generators \<Rightarrow> error + (string entry list \<times> (nat, nat) generators)" where
  "demo_load_data path g =
     (if path = ''labelled.pck'' then Inr (labelled, g)
      else if path = ''unlabelled.pck'' then Inr (unlabelled, g)
      else if path = ''shared.pck'' then Inr (shared, g)
      else if path = ''wide.pck'' then Inr (wide, g)
      else if path = ''empty.pck'' then Inr ([], g)
      else Inl CollaboratorFailure)"

text \<open>
  A selection that depends on the generator: \<open>k\<close> consecutive indices modulo \<open>n\<close>,
  starting at the generator's state, which moves on by \<open>k\<close>.
\<close>

definition demo_random_select ::
  "int \<Rightarrow> int \<Rightarrow> (nat, nat) generators \<Rightarrow> error + (int list \<times> (nat, nat) generators)" where
  "demo_random_select k n g =
     (if k > n \<or> k < 0 \<or> n < 0 then Inl InvalidArgument
      else Inr (map (\<lambda>i. (int (cmt_utils g) + int i) mod n) [0..<nat k],
                g\<lparr>cmt_utils := cmt_utils g + nat k\<rparr>))"

text \<open>
  \<^verbatim>\<open>numpy.random.seed\<close> accepts the seeds below \<open>2\<^sup>3\<^sup>2\<close>. The trained model stands
  for the number of entries it was trained on.
\<close>

definition demo_env :: "(string, nat, nat, nat) env" where
  "demo_env =
     \<lparr>numpy_random_seed = (\<lambda>n. if 0 \<le> n \<and> n < 2 ^ 32 then Inr (nat n) else Inl ValueError),
      cmt_utils_seed = (\<lambda>n. Inr (nat n)),
      c2s_load_data = demo_load_data,
      c2s_preprocess = (\<lambda>data v g. Inr (data, g)),
      cmt_random_select = demo_random_select,
      c2s_train = (\<lambda>entries kw g. Inr (length entries, g)),
      os_path_isdir = (\<lambda>p. p = ''results''),
      can_write = (\<lambda>p. True)\<rparr>"

text \<open>The defaults of the parser, with one dataset and an output directory.\<close>

definition demo_args :: args where
  "demo_args =
     \<lparr>dataset = [''labelled.pck''], output_target = ''results'',
      num_components = 3, num_features = 2, num_models = 4, keep_all = 1, finetune = 0,
      num_train = 0, num_valid = 0, var_explained = 95, window_length = 1000,
      regularize = 0, preprocess = 0, seed = - 1, verbosity = 1\<rparr>"

definition demo_state :: "(string, nat, nat, nat) state" where
  "demo_state =
     \<lparr>generators = \<lparr>numpy_random = 0, cmt_utils = 0\<rparr>, printed = [], train_calls = [],
      files = Map.empty\<rparr>"

section \<open>Properties\<close>

lemmas run_defs = main_def select_cells_def aggregate_def train_and_store_def bindE_def
  returnE_def lift_def call_def call_train_def seed_generators_def seed_numpy_def seed_cmt_def
  print_def pick_training_cells_def Experiment_save_def Experiment_def setitem_def
  os_path_join_def make_kwargs_def cell_registry_def assign_cell_num_def collect_cell_ids_def
  unique_def array_dtype_def fits_int64_def fits_uint64_def

lemmas demo_defs = demo_env_def demo_args_def demo_state_def demo_load_data_def
  demo_random_select_def labelled_def unlabelled_def half_labelled_def shared_def wide_def

subsection \<open>The cell registry\<close>

lemma last_index_mem: "r \<in> set xs \<Longrightarrow> \<exists>k. last_index r xs = Some k"
  by (induction xs) (auto split: option.splits)

lemma last_index_Some:
  "last_index r xs = Some k \<Longrightarrow>
   k < length xs \<and> xs ! k = r \<and> (\<forall>i. k < i \<and> i < length xs \<longrightarrow> xs ! i \<noteq> r)"
proof (induction xs arbitrary: k)
  case Nil
  then show ?case by simp
next
  case (Cons x xs)
  show ?case
  proof (cases "last_index r xs")
    case None
    have no: "xs ! i \<noteq> r" if "i < length xs" for i
    proof
      assume "xs ! i = r"
      then have "r \<in> set xs" using that by auto
      then obtain j where "last_index r xs = Some j"
        using last_index_mem by blast
      with None show False by simp
    qed
    from Cons.prems None have "x = r" "k = 0"
      by (auto split: if_splits)
    then show ?thesis using no by (auto simp: nth_Cons split: nat.splits)
  next
    case (Some j)
    with Cons.prems have k: "k = Suc j" by simp
    from Cons.IH [OF Some] show ?thesis
      unfolding k by (auto simp: nth_Cons split: nat.splits)
  qed
qed

lemma last_index_distinct:
  assumes "distinct xs" and "j < length xs"
  shows "last_index (xs ! j) xs = Some j"
proof -
  obtain k where k: "last_index (xs ! j) xs = Some k"
    using last_index_mem [of "xs ! j" xs] assms(2) by auto
  from last_index_Some [OF k] have "k < length xs" "xs ! k = xs ! j" by auto
  then have "k = j" using assms by (simp add: nth_eq_iff_index_eq)
  with k show ?thesis by simp
qed

text \<open>The loop of lines 78 and 79, started at any position on any list of references.\<close>

lemma fold_assign:
  "fold (\<lambda>(k, entry). assign_cell_num (obj entry) (int k)) (enumerate n xs) ys =
   map (\<lambda>e. case last_index (obj e) (map obj xs) of
               None \<Rightarrow> e
             | Some k \<Rightarrow> e\<lparr>cell_num := Some (int (n + k))\<rparr>) ys"
proof (induction xs arbitrary: n ys)
  case Nil
  show ?case by simp
next
  case (Cons x xs)
  have "fold (\<lambda>(k, entry). assign_cell_num (obj entry) (int k)) (enumerate n (x # xs)) ys =
        fold (\<lambda>(k, entry). assign_cell_num (obj entry) (int k)) (enumerate (Suc n) xs)
          (assign_cell_num (obj x) (int n) ys)"
    by simp
  also have "\<dots> =
      map (\<lambda>e. case last_index (obj e) (map obj xs) of
                  None \<Rightarrow> e
                | Some k \<Rightarrow> e\<lparr>cell_num := Some (int (Suc n + k))\<rparr>)
        (assign_cell_num (obj x) (int n) ys)"
    by (rule Cons.IH)
  also have "\<dots> =
      map (\<lambda>e. case last_index (obj e) (map obj (x # xs)) of
                  None \<Rightarrow> e
                | Some k \<Rightarrow> e\<lparr>cell_num := Some (int (n + k))\<rparr>) ys"
    by (auto simp: assign_cell_num_def split: option.splits)
  finally show ?case .
qed

lemma cell_registry_unlabelled:
  assumes "data \<noteq> []" and "cell_num (hd data) = None"
  shows "cell_registry data =
     Inr (map (\<lambda>e. case last_index (obj e) (map obj data) of
                     None \<Rightarrow> e
                   | Some k \<Rightarrow> e\<lparr>cell_num := Some (int k)\<rparr>) data)"
proof -
  have "cell_registry data =
      Inr (fold (\<lambda>(k, entry). assign_cell_num (obj entry) (int k)) (enumerate 0 data) data)"
    using assms by (cases data) (simp_all add: cell_registry_def del: enumerate_simps fold_simps)
  then show ?thesis
    unfolding fold_assign by (simp cong: option.case_cong)
qed

lemma cell_registry_distinct:
  assumes "data \<noteq> []" and "cell_num (hd data) = None" and "distinct (map obj data)"
  shows "cell_registry data =
     Inr (map (\<lambda>k. (data ! k)\<lparr>cell_num := Some (int k)\<rparr>) [0..<length data])"
proof -
  let ?new = "\<lambda>e. case last_index (obj e) (map obj data) of
                     None \<Rightarrow> e
                   | Some k \<Rightarrow> e\<lparr>cell_num := Some (int k)\<rparr>"
  have "map ?new data = map (\<lambda>k. (data ! k)\<lparr>cell_num := Some (int k)\<rparr>) [0..<length data]"
  proof (rule nth_equalityI)
    show "length (map ?new data) =
          length (map (\<lambda>k. (data ! k)\<lparr>cell_num := Some (int k)\<rparr>) [0..<length data])"
      by simp
  next
    fix j assume "j < length (map ?new data)"
    then have j: "j < length data" by simp
    have "last_index (obj (data ! j)) (map obj data) = Some j"
      using last_index_distinct [OF assms(3), of j] j by simp
    then show "map ?new data ! j =
               map (\<lambda>k. (data ! k)\<lparr>cell_num := Some (int k)\<rparr>) [0..<length data] ! j"
      using j by simp
  qed
  then show ?thesis
    using cell_registry_unlabelled [OF assms(1,2)] by simp
qed

text \<open>
  C3, as amended. On a non-empty list, the registry returns the list as it is when the
  first entry has a cell number, so a second pass changes nothing. When the first entry
  has none, every entry ends with the last position at which its object stands in the
  list, whatever the later entries carried; when no object stands in the list twice,
  that is its own position, so entry \<open>k\<close> gets the cell number \<open>k\<close>. In all cases
  the registry run on its own result returns that result.
\<close>

theorem cell_registry_check_once:
  assumes "data \<noteq> []"
  shows "(cell_num (hd data) \<noteq> None \<longrightarrow> cell_registry data = Inr data) \<and>
         (cell_num (hd data) = None \<longrightarrow>
            (\<exists>data'. cell_registry data = Inr data' \<and> length data' = length data \<and>
               (\<forall>j < length data. \<exists>k < length data.
                   obj (data ! k) = obj (data ! j) \<and>
                   (\<forall>i. k < i \<and> i < length data \<longrightarrow> obj (data ! i) \<noteq> obj (data ! j)) \<and>
                   data' ! j = (data ! j)\<lparr>cell_num := Some (int k)\<rparr>))) \<and>
         (cell_num (hd data) = None \<and> distinct (map obj data) \<longrightarrow>
            cell_registry data =
              Inr (map (\<lambda>k. (data ! k)\<lparr>cell_num := Some (int k)\<rparr>) [0..<length data])) \<and>
         (\<forall>data'. cell_registry data = Inr data' \<longrightarrow> cell_registry data' = Inr data')"
proof -
  obtain first rest where d: "data = first # rest"
    using assms by (cases data) auto
  let ?new = "\<lambda>e. case last_index (obj e) (map obj data) of
                     None \<Rightarrow> e
                   | Some k \<Rightarrow> e\<lparr>cell_num := Some (int k)\<rparr>"
  have a: "cell_num first \<noteq> None \<Longrightarrow> cell_registry data = Inr data"
    by (auto simp: cell_registry_def d)
  have b: "cell_registry data = Inr (map ?new data)" if "cell_num first = None"
    using cell_registry_unlabelled [OF assms] that by (simp add: d)
  have pos: "\<exists>k < length data.
      obj (data ! k) = obj (data ! j) \<and>
      (\<forall>i. k < i \<and> i < length data \<longrightarrow> obj (data ! i) \<noteq> obj (data ! j)) \<and>
      map ?new data ! j = (data ! j)\<lparr>cell_num := Some (int k)\<rparr>"
    if j: "j < length data" for j
  proof -
    have "obj (data ! j) \<in> set (map obj data)" using j by simp
    then obtain k where k: "last_index (obj (data ! j)) (map obj data) = Some k"
      using last_index_mem by blast
    from last_index_Some [OF k] have kl: "k < length data" by simp
    with last_index_Some [OF k] have "obj (data ! k) = obj (data ! j)"
      "\<forall>i. k < i \<and> i < length data \<longrightarrow> obj (data ! i) \<noteq> obj (data ! j)"
      by simp_all
    note kl this
    moreover have "map ?new data ! j = (data ! j)\<lparr>cell_num := Some (int k)\<rparr>"
      using j k by simp
    ultimately show ?thesis by blast
  qed
  have e: "cell_registry data' = Inr data'" if "cell_registry data = Inr data'" for data'
  proof (cases "cell_num first")
    case None
    then have eq: "data' = map ?new data" using b that by simp
    obtain k where "last_index (obj first) (map obj data) = Some k"
      using last_index_mem [of "obj first" "map obj data"] by (auto simp: d)
    then have "cell_num (hd data') \<noteq> None" "data' \<noteq> []"
      unfolding eq by (simp_all add: d)
    then show ?thesis by (cases data') (auto simp: cell_registry_def)
  next
    case (Some c)
    then show ?thesis using a that by simp
  qed
  have "cell_num (hd data) = None \<longrightarrow>
     (\<exists>data'. cell_registry data = Inr data' \<and> length data' = length data \<and>
        (\<forall>j < length data. \<exists>k < length data.
            obj (data ! k) = obj (data ! j) \<and>
            (\<forall>i. k < i \<and> i < length data \<longrightarrow> obj (data ! i) \<noteq> obj (data ! j)) \<and>
            data' ! j = (data ! j)\<lparr>cell_num := Some (int k)\<rparr>))"
  proof
    assume "cell_num (hd data) = None"
    then have "cell_registry data = Inr (map ?new data)" using b by (simp add: d)
    moreover have "length (map ?new data) = length data" by simp
    ultimately show "\<exists>data'. cell_registry data = Inr data' \<and> length data' = length data \<and>
        (\<forall>j < length data. \<exists>k < length data.
            obj (data ! k) = obj (data ! j) \<and>
            (\<forall>i. k < i \<and> i < length data \<longrightarrow> obj (data ! i) \<noteq> obj (data ! j)) \<and>
            data' ! j = (data ! j)\<lparr>cell_num := Some (int k)\<rparr>)"
      using pos by blast
  qed
  moreover have "cell_num (hd data) \<noteq> None \<longrightarrow> cell_registry data = Inr data"
    using a by (simp add: d)
  moreover have "cell_num (hd data) = None \<and> distinct (map obj data) \<longrightarrow>
      cell_registry data =
        Inr (map (\<lambda>k. (data ! k)\<lparr>cell_num := Some (int k)\<rparr>) [0..<length data])"
    using cell_registry_distinct [OF assms] by blast
  ultimately show ?thesis using e by blast
qed

theorem cell_registry_check_once_witness:
  "half_labelled \<noteq> [] \<and> labelled \<noteq> [] \<and> shared \<noteq> [] \<and>
   cell_registry half_labelled =
     Inr [\<lparr>obj = 0, cell_num = Some 0, other_keys = ''a''\<rparr>,
          \<lparr>obj = 1, cell_num = Some 1, other_keys = ''b''\<rparr>] \<and>
   cell_registry labelled = Inr labelled \<and>
   cell_registry shared =
     Inr [\<lparr>obj = 0, cell_num = Some 2, other_keys = ''a''\<rparr>,
          \<lparr>obj = 1, cell_num = Some 1, other_keys = ''b''\<rparr>,
          \<lparr>obj = 0, cell_num = Some 2, other_keys = ''a''\<rparr>]"
proof -
  have h: "half_labelled \<noteq> []" and l: "labelled \<noteq> []" and t: "shared \<noteq> []"
    by (simp_all add: half_labelled_def labelled_def shared_def)
  have "cell_registry labelled = Inr labelled"
    using cell_registry_check_once [OF l] by (simp add: labelled_def)
  moreover have "cell_registry half_labelled =
      Inr (map (\<lambda>k. (half_labelled ! k)\<lparr>cell_num := Some (int k)\<rparr>) [0..<length half_labelled])"
    using cell_registry_check_once [OF h] by (simp add: half_labelled_def)
  then have "cell_registry half_labelled =
     Inr [\<lparr>obj = 0, cell_num = Some 0, other_keys = ''a''\<rparr>,
          \<lparr>obj = 1, cell_num = Some 1, other_keys = ''b''\<rparr>]"
    by (simp add: half_labelled_def upt_conv_Cons)
  moreover have "cell_registry shared =
     Inr [\<lparr>obj = 0, cell_num = Some 2, other_keys = ''a''\<rparr>,
          \<lparr>obj = 1, cell_num = Some 1, other_keys = ''b''\<rparr>,
          \<lparr>obj = 0, cell_num = Some 2, other_keys = ''a''\<rparr>]"
    by (simp add: cell_registry_def assign_cell_num_def shared_def)
  ultimately show ?thesis
    using h l t by simp
qed

text \<open>
  C3 as stated fails: in a list that holds one unlabelled object at positions 0 and 2,
  both positions end with the cell number 2, not with 0 and 2.
\<close>

theorem shared_entry_counterexample:
  "shared \<noteq> [] \<and> cell_num (hd shared) = None \<and>
   cell_registry shared =
     Inr [\<lparr>obj = 0, cell_num = Some 2, other_keys = ''a''\<rparr>,
          \<lparr>obj = 1, cell_num = Some 1, other_keys = ''b''\<rparr>,
          \<lparr>obj = 0, cell_num = Some 2, other_keys = ''a''\<rparr>] \<and>
   cell_registry shared \<noteq>
     Inr (map (\<lambda>k. (shared ! k)\<lparr>cell_num := Some (int k)\<rparr>) [0..<length shared])"
  by (simp add: cell_registry_def assign_cell_num_def shared_def upt_conv_Cons)




lemma array_dtype_Float64:
  "(array_dtype cs = Float64) =
   (\<not> ((\<forall>c \<in> set cs. fits_int64 c) \<or> (\<forall>c \<in> set cs. fits_uint64 c) \<or>
        (\<exists>c \<in> set cs. \<not> fits_int64 c \<and> \<not> fits_uint64 c)))"
  by (auto simp: array_dtype_def list_all_iff)





lemma labelled_cell_ids: "collect_cell_ids labelled = Inr [1, 2]"
  by (simp add: collect_cell_ids_def unique_def labelled_def array_dtype_def fits_int64_def)




subsection \<open>Steps that print nothing, train nothing and write nothing\<close>

lemma quietD: "quiet m \<Longrightarrow> m s = (r, s') \<Longrightarrow> unchanged s s'"
  by (simp add: quiet_def)

lemma quiet_call: "quiet (call f)"
  by (auto simp: quiet_def call_def unchanged_def split: sum.splits prod.splits)

lemma quiet_returnE: "quiet (returnE x)"
  by (auto simp: quiet_def returnE_def unchanged_def)

lemma quiet_lift: "quiet (lift x)"
  by (auto simp: quiet_def lift_def unchanged_def)

lemma quiet_bindE: "quiet m \<Longrightarrow> (\<And>x. quiet (f x)) \<Longrightarrow> quiet (bindE m f)"
  unfolding quiet_def bindE_def unchanged_def
  by (auto split: sum.splits prod.splits)

lemma quiet_if: "quiet m \<Longrightarrow> quiet n \<Longrightarrow> quiet (if b then m else n)"
  by simp

lemma quiet_seed_numpy: "quiet (seed_numpy env n)"
  by (auto simp: quiet_def seed_numpy_def unchanged_def split: sum.splits)

lemma quiet_seed_cmt: "quiet (seed_cmt env n)"
  by (auto simp: quiet_def seed_cmt_def unchanged_def split: sum.splits)

lemma quiet_seed_generators: "quiet (seed_generators env a)"
  unfolding seed_generators_def
  by (intro quiet_if quiet_bindE quiet_seed_numpy quiet_seed_cmt quiet_returnE)

lemma quiet_load_all: "quiet (load_all env paths data)"
proof (induction paths arbitrary: data)
  case Nil
  show ?case by (simp add: quiet_returnE)
next
  case (Cons filepath rest)
  show ?case
    unfolding load_all.simps
    by (intro quiet_bindE quiet_call Cons.IH)
qed

lemma quiet_aggregate: "quiet (aggregate env a)"
  unfolding aggregate_def
  by (intro quiet_bindE quiet_if quiet_load_all quiet_call quiet_returnE)

lemma quiet_pick: "quiet (pick_training_cells env a ids)"
  unfolding pick_training_cells_def
  by (intro quiet_if quiet_call quiet_returnE)

lemma quiet_select_cells: "quiet (select_cells env a)"
  unfolding select_cells_def
  by (intro quiet_bindE quiet_aggregate quiet_lift quiet_pick quiet_returnE)

lemma unchanged_trans: "unchanged s t \<Longrightarrow> unchanged t u \<Longrightarrow> unchanged s u"
  by (simp add: unchanged_def)

lemma main_seeded:
  "seed_generators env a s = (Inr u, s1) \<Longrightarrow>
   main env a s =
     (if dataset a = []
      then bindE (print ''You have to specify at least 1 dataset.'') (\<lambda>_. returnE 0) s1
      else bindE (select_cells env a)
             (\<lambda>(data, training_cells). train_and_store env a Experiment data training_cells) s1)"
  by (simp add: main_def bindE_def)

lemma main_seeding_raises:
  "seed_generators env a s = (Inl e, s1) \<Longrightarrow> main env a s = (Inl e, s1)"
  by (simp add: main_def bindE_def)

subsection \<open>Results that depend on the generators only\<close>

lemma generators_only_call: "generators_only (call f)"
  by (auto simp: generators_only_def call_def split: sum.splits prod.splits)

lemma generators_only_returnE: "generators_only (returnE x)"
  by (simp add: generators_only_def returnE_def)

lemma generators_only_lift: "generators_only (lift x)"
  by (simp add: generators_only_def lift_def)

lemma generators_only_bindE:
  assumes "generators_only m" and "\<And>x. generators_only (f x)"
  shows "generators_only (bindE m f)"
  unfolding generators_only_def
proof (intro allI impI)
  fix s t :: "('a, 'b, 'c, 'd) state"
  assume g: "generators s = generators t"
  obtain r s1 where ms: "m s = (r, s1)" by (cases "m s")
  obtain q t1 where mt: "m t = (q, t1)" by (cases "m t")
  have "fst (m s) = fst (m t) \<and> generators (snd (m s)) = generators (snd (m t))"
    using assms(1) g unfolding generators_only_def by blast
  with ms mt have rq: "r = q" and g1: "generators s1 = generators t1"
    by simp_all
  show "fst (bindE m f s) = fst (bindE m f t) \<and>
        generators (snd (bindE m f s)) = generators (snd (bindE m f t))"
  proof (cases r)
    case (Inl e)
    then show ?thesis using ms mt rq g1 by (simp add: bindE_def)
  next
    case (Inr x)
    have "fst (f x s1) = fst (f x t1) \<and>
          generators (snd (f x s1)) = generators (snd (f x t1))"
      using assms(2) [of x] g1 unfolding generators_only_def by blast
    then show ?thesis
      using Inr ms mt rq by (simp add: bindE_def)
  qed
qed

lemma generators_only_if:
  "generators_only m \<Longrightarrow> generators_only n \<Longrightarrow> generators_only (if b then m else n)"
  by simp

lemma generators_only_load_all: "generators_only (load_all env paths data)"
proof (induction paths arbitrary: data)
  case Nil
  show ?case by (simp add: generators_only_returnE)
next
  case (Cons filepath rest)
  show ?case
    unfolding load_all.simps
    by (intro generators_only_bindE generators_only_call Cons.IH)
qed

lemma generators_only_select_cells: "generators_only (select_cells env a)"
  unfolding select_cells_def aggregate_def pick_training_cells_def
  by (intro generators_only_bindE generators_only_if generators_only_load_all
        generators_only_call generators_only_lift generators_only_returnE)

lemma seeded_generators:
  assumes "seed a > - 1"
  shows "fst (seed_generators env a s) = fst (seed_generators env a s') \<and>
         (\<forall>u. fst (seed_generators env a s) = Inr u \<longrightarrow>
            generators (snd (seed_generators env a s)) =
            generators (snd (seed_generators env a s')))"
  using assms
  by (auto simp: seed_generators_def seed_numpy_def seed_cmt_def bindE_def
      split: sum.splits)

text \<open>
  C4. With a seed above \<open>-1\<close>, what lines 59 to 89 produce, the exception of a failed
  seeding or the entries and the training cells, is the same from any two starting
  states: neither the generators' earlier states nor anything else in the state reaches
  it.
\<close>

theorem seeded_selection_deterministic:
  assumes "seed a > - 1"
  shows "fst (bindE (seed_generators env a) (\<lambda>_. select_cells env a) s) =
         fst (bindE (seed_generators env a) (\<lambda>_. select_cells env a) s')"
proof -
  obtain r s1 where a: "seed_generators env a s = (r, s1)"
    by (cases "seed_generators env a s")
  obtain r' s1' where b: "seed_generators env a s' = (r', s1')"
    by (cases "seed_generators env a s'")
  from seeded_generators [OF assms, of env s s'] a b
  have rr: "r' = r" and g: "\<And>u. r = Inr u \<Longrightarrow> generators s1 = generators s1'"
    by simp_all
  show ?thesis
  proof (cases r)
    case (Inl e)
    then show ?thesis using a b rr by (simp add: bindE_def)
  next
    case (Inr u)
    have "fst (select_cells env a s1) = fst (select_cells env a s1')"
      using generators_only_select_cells [of env a] g [OF Inr]
      unfolding generators_only_def by blast
    then show ?thesis using a b rr Inr by (simp add: bindE_def)
  qed
qed

theorem seeded_selection_deterministic_witness:
  "- 1 < seed (demo_args\<lparr>num_train := 1, seed := 5\<rparr>) \<and>
   fst (bindE (seed_generators demo_env (demo_args\<lparr>num_train := 1, seed := 5\<rparr>))
          (\<lambda>_. select_cells demo_env (demo_args\<lparr>num_train := 1, seed := 5\<rparr>)) demo_state) =
   fst (bindE (seed_generators demo_env (demo_args\<lparr>num_train := 1, seed := 5\<rparr>))
          (\<lambda>_. select_cells demo_env (demo_args\<lparr>num_train := 1, seed := 5\<rparr>))
          (demo_state\<lparr>generators := \<lparr>numpy_random = 3, cmt_utils = 1\<rparr>\<rparr>)) \<and>
   fst (bindE (seed_generators demo_env (demo_args\<lparr>num_train := 1, seed := 5\<rparr>))
          (\<lambda>_. select_cells demo_env (demo_args\<lparr>num_train := 1, seed := 5\<rparr>)) demo_state) =
   Inr (labelled, [1])"
proof -
  have h: "- 1 < seed (demo_args\<lparr>num_train := 1, seed := 5\<rparr>)" by simp
  have v: "fst (bindE (seed_generators demo_env (demo_args\<lparr>num_train := 1, seed := 5\<rparr>))
          (\<lambda>_. select_cells demo_env (demo_args\<lparr>num_train := 1, seed := 5\<rparr>)) demo_state) =
     Inr (labelled, [1])"
    by (simp add: run_defs demo_defs)
  show ?thesis
    using h v seeded_selection_deterministic [OF h, of demo_env demo_state
        "demo_state\<lparr>generators := \<lparr>numpy_random = 3, cmt_utils = 1\<rparr>\<rparr>"]
    by simp
qed

text \<open>Without a seed the training cells follow the generator the run starts from.\<close>

lemma unseeded_selection_depends:
  "fst (bindE (seed_generators demo_env (demo_args\<lparr>num_train := 1\<rparr>))
          (\<lambda>_. select_cells demo_env (demo_args\<lparr>num_train := 1\<rparr>)) demo_state) =
     Inr (labelled, [0]) \<and>
   fst (bindE (seed_generators demo_env (demo_args\<lparr>num_train := 1\<rparr>))
          (\<lambda>_. select_cells demo_env (demo_args\<lparr>num_train := 1\<rparr>))
          (demo_state\<lparr>generators := \<lparr>numpy_random = 3, cmt_utils = 1\<rparr>\<rparr>)) =
     Inr (labelled, [1])"
  by (simp add: run_defs demo_defs)

text \<open>A seed that \<^verbatim>\<open>numpy.random.seed\<close> refuses ends the run at line 60.\<close>

lemma seed_out_of_range:
  "main demo_env (demo_args\<lparr>seed := 2 ^ 32\<rparr>) demo_state = (Inl ValueError, demo_state)"
  by (simp add: main_def seed_generators_def seed_numpy_def bindE_def demo_env_def demo_args_def)

subsection \<open>Runs that end early\<close>

lemma seeding_raises_unchanged:
  assumes "seed_generators env a s = (Inl e, s1)"
  shows "main env a s = (Inl e, s1) \<and> train_calls s1 = train_calls s \<and> files s1 = files s"
  using main_seeding_raises [OF assms] quietD [OF quiet_seed_generators assms]
  by (simp add: unchanged_def)

lemma guard_on_empty_namespace:
  assumes "dataset a = []" and "seed_generators env a s = (Inr u, s1)"
  shows "main env a s =
           (Inr 0, s1\<lparr>printed := printed s @ [''You have to specify at least 1 dataset.'']\<rparr>) \<and>
         train_calls s1 = train_calls s \<and> files s1 = files s"
  using assms main_seeded [OF assms(2)] quietD [OF quiet_seed_generators assms(2)]
  by (simp add: bindE_def print_def returnE_def unchanged_def)

lemma parsed_dataset_nonempty:
  "parse_positionals argv = Some (Inr a) \<Longrightarrow> dataset a \<noteq> []"
  by (cases argv rule: rev_cases) (auto simp: parse_positionals_def split: if_splits)

text \<open>
  C6, at a command line without datasets, with or without an output. The parser ends the
  process with status 2 before line 58: the message of line 66 is not printed and 0 is
  not returned. By \<open>parsed_dataset_nonempty\<close> the test of line 65 never succeeds on a
  parsed command line; \<open>guard_on_empty_namespace\<close> is what lines 65 to 67 would do.
\<close>

theorem no_dataset_command_line:
  "main_argv demo_env [] demo_state = Some (Inl (SystemExit 2), demo_state) \<and>
   main_argv demo_env [''model.xpck''] demo_state = Some (Inl (SystemExit 2), demo_state) \<and>
   printed demo_state = []"
  by (simp add: main_argv_def parse_positionals_def demo_state_def)

text \<open>
  C10. With at least one dataset, once the seeding has passed, when loading and the
  optional preprocessing return no entry at all, \<^verbatim>\<open>data[0]\<close> at line 76 raises
  \<open>IndexError\<close>: the run ends there, with no call of the trainer and no file written.
\<close>

theorem no_entries_IndexError:
  assumes "dataset a \<noteq> []"
    and "seed_generators env a s = (Inr u, s1)"
    and "aggregate env a s1 = (Inr [], s')"
  shows "main env a s = (Inl IndexError, s') \<and>
         train_calls s' = train_calls s \<and> files s' = files s"
proof -
  have "unchanged s s'"
    using quietD [OF quiet_seed_generators assms(2)] quietD [OF quiet_aggregate assms(3)]
    by (rule unchanged_trans)
  then have "train_calls s' = train_calls s \<and> files s' = files s"
    by (simp add: unchanged_def)
  moreover have "main env a s = (Inl IndexError, s')"
    using assms(1,3) main_seeded [OF assms(2)]
    by (simp add: select_cells_def bindE_def lift_def cell_registry_def)
  ultimately show ?thesis by simp
qed

theorem no_entries_IndexError_witness:
  "dataset (demo_args\<lparr>dataset := [''empty.pck''], seed := 7\<rparr>) \<noteq> [] \<and>
   seed_generators demo_env (demo_args\<lparr>dataset := [''empty.pck''], seed := 7\<rparr>) demo_state =
     (Inr (), demo_state\<lparr>generators := \<lparr>numpy_random = 7, cmt_utils = 7\<rparr>\<rparr>) \<and>
   aggregate demo_env (demo_args\<lparr>dataset := [''empty.pck''], seed := 7\<rparr>)
     (demo_state\<lparr>generators := \<lparr>numpy_random = 7, cmt_utils = 7\<rparr>\<rparr>) =
     (Inr [], demo_state\<lparr>generators := \<lparr>numpy_random = 7, cmt_utils = 7\<rparr>\<rparr>) \<and>
   main demo_env (demo_args\<lparr>dataset := [''empty.pck''], seed := 7\<rparr>) demo_state =
     (Inl IndexError, demo_state\<lparr>generators := \<lparr>numpy_random = 7, cmt_utils = 7\<rparr>\<rparr>)"
proof -
  have h: "dataset (demo_args\<lparr>dataset := [''empty.pck''], seed := 7\<rparr>) \<noteq> []" by simp
  have g: "seed_generators demo_env (demo_args\<lparr>dataset := [''empty.pck''], seed := 7\<rparr>)
      demo_state = (Inr (), demo_state\<lparr>generators := \<lparr>numpy_random = 7, cmt_utils = 7\<rparr>\<rparr>)"
    by (simp add: run_defs demo_defs)
  have l: "aggregate demo_env (demo_args\<lparr>dataset := [''empty.pck''], seed := 7\<rparr>)
     (demo_state\<lparr>generators := \<lparr>numpy_random = 7, cmt_utils = 7\<rparr>\<rparr>) =
     (Inr [], demo_state\<lparr>generators := \<lparr>numpy_random = 7, cmt_utils = 7\<rparr>\<rparr>)"
    by (simp add: run_defs demo_defs)
  show ?thesis
    using h g l no_entries_IndexError [OF h g l] by simp
qed

text \<open>
  C5. Let the selection primitive reject a request for more indices than there are. When
  the requested number of training cells exceeds the number of cell ids, line 86 hands
  both numbers on as they are, the selection raises \<open>InvalidArgument\<close> and so does the
  run: no training cells are returned, the trainer is not called, no file is written.
\<close>

theorem oversized_request_fails:
  assumes "rejects_oversized env"
    and "dataset a \<noteq> []"
    and "seed_generators env a s = (Inr u, s1)"
    and "aggregate env a s1 = (Inr data0, s')"
    and "cell_registry data0 = Inr data"
    and "collect_cell_ids data = Inr cell_ids"
    and "int (length cell_ids) < num_train a"
  shows "pick_training_cells env a cell_ids s' = (Inl InvalidArgument, s') \<and>
         main env a s = (Inl InvalidArgument, s') \<and>
         train_calls s' = train_calls s \<and> files s' = files s"
proof -
  have pos: "num_train a > 0" using assms(7) by linarith
  have "cmt_random_select env (num_train a) (int (length cell_ids)) (generators s') =
        Inl InvalidArgument"
    using assms(1,7) by (simp add: rejects_oversized_def)
  then have pick: "pick_training_cells env a cell_ids s' = (Inl InvalidArgument, s')"
    using pos by (simp add: pick_training_cells_def call_def)
  have "unchanged s s'"
    using quietD [OF quiet_seed_generators assms(3)] quietD [OF quiet_aggregate assms(4)]
    by (rule unchanged_trans)
  then have same: "train_calls s' = train_calls s \<and> files s' = files s"
    by (simp add: unchanged_def)
  have "main env a s = (Inl InvalidArgument, s')"
    using assms(2,4-6) pick main_seeded [OF assms(3)]
    by (simp add: select_cells_def bindE_def lift_def)
  with pick same show ?thesis by simp
qed

theorem oversized_request_fails_witness:
  "rejects_oversized demo_env \<and>
   dataset (demo_args\<lparr>num_train := 3\<rparr>) \<noteq> [] \<and>
   seed_generators demo_env (demo_args\<lparr>num_train := 3\<rparr>) demo_state = (Inr (), demo_state) \<and>
   aggregate demo_env (demo_args\<lparr>num_train := 3\<rparr>) demo_state = (Inr labelled, demo_state) \<and>
   cell_registry labelled = Inr labelled \<and>
   collect_cell_ids labelled = Inr [1, 2] \<and>
   int (length [1, 2 :: int]) < num_train (demo_args\<lparr>num_train := 3\<rparr>) \<and>
   main demo_env (demo_args\<lparr>num_train := 3\<rparr>) demo_state = (Inl InvalidArgument, demo_state)"
proof -
  have c: "rejects_oversized demo_env"
    by (simp add: rejects_oversized_def demo_env_def demo_random_select_def)
  have h: "dataset (demo_args\<lparr>num_train := 3\<rparr>) \<noteq> []"
    by (simp add: demo_args_def)
  have e: "seed_generators demo_env (demo_args\<lparr>num_train := 3\<rparr>) demo_state =
      (Inr (), demo_state)"
    by (simp add: seed_generators_def returnE_def demo_args_def)
  have g: "aggregate demo_env (demo_args\<lparr>num_train := 3\<rparr>) demo_state =
      (Inr labelled, demo_state)"
    by (simp add: run_defs demo_defs)
  have r: "cell_registry labelled = Inr labelled"
    by (simp add: cell_registry_def labelled_def)
  have n: "int (length [1, 2 :: int]) < num_train (demo_args\<lparr>num_train := 3\<rparr>)"
    by simp
  show ?thesis
    using c h e g r n oversized_request_fails [OF c h e g r labelled_cell_ids n]
    by (simp add: labelled_cell_ids)
qed

subsection \<open>Training and storing\<close>

lemma train_and_store_cases:
  assumes "train_and_store env a x data tc s = (r, s')"
  shows "(train_calls s' = train_calls s \<or>
          (\<exists>kept. training_entries tc data = Inr kept \<and>
                  train_calls s' = train_calls s @ [(kept, make_kwargs a)])) \<and>
         (case r of
            Inl e \<Rightarrow> files s' = files s
          | Inr v \<Rightarrow> v = 0 \<and> (\<exists>models.
              files s' = (files s)(store_path env a \<mapsto>
                setitem ''models'' (ModelsItem models)
                  (setitem ''training_cells'' (CellsItem tc) (setitem ''args'' (ArgsItem a) x)))))"
  using assms
  unfolding train_and_store_def bindE_def lift_def call_train_def call_def
    Experiment_save_def returnE_def store_path_def Let_def
  by (auto split: sum.splits prod.splits if_splits)

lemma main_cases:
  assumes "dataset a \<noteq> []" and "main env a s = (r, s')"
  shows "(train_calls s' = train_calls s \<or>
          (\<exists>kept. train_calls s' = train_calls s @ [(kept, make_kwargs a)])) \<and>
         (case r of
            Inl e \<Rightarrow> files s' = files s
          | Inr v \<Rightarrow> v = 0 \<and> (\<exists>tc models.
              files s' = (files s)(store_path env a \<mapsto>
                [(''args'', ArgsItem a), (''training_cells'', CellsItem tc),
                 (''models'', ModelsItem models)])))"
proof -
  obtain p s1 where seeded: "seed_generators env a s = (p, s1)"
    by (cases "seed_generators env a s")
  have u1: "unchanged s s1"
    using quietD [OF quiet_seed_generators seeded] .
  show ?thesis
  proof (cases p)
    case (Inl e)
    then have "main env a s = (Inl e, s1)"
      using seeded by (simp add: main_seeding_raises)
    then show ?thesis using assms(2) u1 by (auto simp: unchanged_def)
  next
    case (Inr u)
    note m = main_seeded [OF seeded [unfolded Inr]]
    obtain q t where sel: "select_cells env a s1 = (q, t)"
      by (cases "select_cells env a s1")
    have "unchanged s t"
      using u1 quietD [OF quiet_select_cells sel] by (rule unchanged_trans)
    then have same: "train_calls t = train_calls s" "files t = files s"
      by (simp_all add: unchanged_def)
    show ?thesis
    proof (cases q)
      case (Inl e)
      then have "main env a s = (Inl e, t)"
        using assms(1) sel m by (simp add: bindE_def)
      then show ?thesis using assms(2) same by auto
    next
      case (Inr d)
      obtain data tc where d: "d = (data, tc)" by (cases d)
      have "train_and_store env a Experiment data tc t = (r, s')"
        using assms sel Inr d m by (simp add: bindE_def)
      from train_and_store_cases [OF this] show ?thesis
        using same by (auto simp: setitem_def Experiment_def split: sum.splits)
    qed
  qed
qed

lemma main_without_data:
  assumes "dataset a = []"
  shows "train_calls (snd (main env a s)) = train_calls s"
proof -
  obtain p s1 where seeded: "seed_generators env a s = (p, s1)"
    by (cases "seed_generators env a s")
  show ?thesis
  proof (cases p)
    case (Inl e)
    then show ?thesis
      using seeding_raises_unchanged [of env a s e s1] seeded by simp
  next
    case (Inr u)
    then show ?thesis
      using guard_on_empty_namespace [OF assms, of env s u s1] seeded by simp
  qed
qed

text \<open>
  C7, as amended. A run that calls the trainer calls it once, and the keyword arguments
  are those of the namespace: validation count, number of models, variance explained,
  window length, retention flag, fine-tune flag, the two structural parameters, the
  regularization strength and the logging verbosity. The training verbosity is the
  constant 1, whatever verbosity the namespace holds.
\<close>

theorem kwargs_passed:
  assumes "train_calls (snd (main env a s)) \<noteq> train_calls s"
  shows "\<exists>entries. train_calls (snd (main env a s)) = train_calls s @
           [(entries,
             \<lparr>kw_num_valid = num_valid a,
              kw_num_models = num_models a,
              kw_var_explained = var_explained a,
              kw_window_length = window_length a,
              kw_keep_all = keep_all a,
              kw_finetune = finetune a,
              kw_model_parameters =
                [(''num_components'', num_components a), (''num_features'', num_features a)],
              kw_training_parameters = [(''verbosity'', 1)],
              kw_regularize = regularize a,
              kw_verbosity = verbosity a\<rparr>)]"
proof (cases "dataset a = []")
  case True
  with assms main_without_data show ?thesis by blast
next
  case False
  obtain r s' where m: "main env a s = (r, s')" by (cases "main env a s")
  from main_cases [OF False m] assms m show ?thesis
    by (auto simp: make_kwargs_def)
qed

theorem kwargs_passed_witness:
  "train_calls (snd (main demo_env (demo_args\<lparr>verbosity := 0\<rparr>) demo_state)) \<noteq>
     train_calls demo_state \<and>
   map snd (train_calls (snd (main demo_env (demo_args\<lparr>verbosity := 0\<rparr>) demo_state))) =
     [\<lparr>kw_num_valid = 0, kw_num_models = 4, kw_var_explained = 95, kw_window_length = 1000,
       kw_keep_all = 1, kw_finetune = 0,
       kw_model_parameters = [(''num_components'', 3), (''num_features'', 2)],
       kw_training_parameters = [(''verbosity'', 1)],
       kw_regularize = 0, kw_verbosity = 0\<rparr>]"
proof -
  have h: "train_calls (snd (main demo_env (demo_args\<lparr>verbosity := 0\<rparr>) demo_state)) \<noteq>
      train_calls demo_state"
    by (simp add: run_defs demo_defs)
  show ?thesis
    using h kwargs_passed [OF h] by (auto simp: demo_args_def demo_state_def)
qed

text \<open>
  C7 as stated fails: with verbosity 0 in the namespace, the training parameters handed
  to the trainer are not that verbosity.
\<close>

theorem training_verbosity_counterexample:
  "verbosity (demo_args\<lparr>verbosity := 0\<rparr>) = 0 \<and>
   map (kw_training_parameters \<circ> snd)
     (train_calls (snd (main demo_env (demo_args\<lparr>verbosity := 0\<rparr>) demo_state))) =
   [[(''verbosity'', 1)]] \<and>
   map (kw_training_parameters \<circ> snd)
     (train_calls (snd (main demo_env (demo_args\<lparr>verbosity := 0\<rparr>) demo_state))) \<noteq>
   [[(''verbosity'', verbosity (demo_args\<lparr>verbosity := 0\<rparr>))]]"
  by (simp add: run_defs demo_defs)

lemma os_path_join_default:
  "os_path_join t ''model.xpck'' =
     (if t = [] \<or> last t = CHR ''/'' then t @ ''model.xpck'' else t @ ''/model.xpck'')"
  by (simp add: os_path_join_def)

text \<open>
  C8. A run over at least one dataset that returns has written the experiment, with its
  three items, at the output target joined with \<^verbatim>\<open>model.xpck\<close> when the target is an
  existing directory, and at the target itself otherwise. Whatever was stored at that
  path before is replaced, and no other path is touched.
\<close>

theorem record_written:
  assumes "dataset a \<noteq> []" and "main env a s = (Inr r, s')"
  shows "\<exists>training_cells models.
           files s' =
             (files s)
               ((if os_path_isdir env (output_target a)
                 then os_path_join (output_target a) ''model.xpck''
                 else output_target a) \<mapsto>
                [(''args'', ArgsItem a), (''training_cells'', CellsItem training_cells),
                 (''models'', ModelsItem models)])"
  using main_cases [OF assms] by (simp add: store_path_def)

theorem record_written_witness:
  "dataset demo_args \<noteq> [] \<and> fst (main demo_env demo_args demo_state) = Inr 0 \<and>
   os_path_isdir demo_env (output_target demo_args) \<and>
   files (snd (main demo_env demo_args demo_state)) ''results/model.xpck'' =
     Some [(''args'', ArgsItem demo_args), (''training_cells'', CellsItem [0, 1]),
           (''models'', ModelsItem 2)]"
proof -
  have h: "dataset demo_args \<noteq> []" by (simp add: demo_args_def)
  have m: "fst (main demo_env demo_args demo_state) = Inr 0"
    by (simp add: run_defs demo_defs)
  then have e: "main demo_env demo_args demo_state =
      (Inr 0, snd (main demo_env demo_args demo_state))"
    by (metis prod.collapse)
  have f: "files (snd (main demo_env demo_args demo_state)) ''results/model.xpck'' =
     Some [(''args'', ArgsItem demo_args), (''training_cells'', CellsItem [0, 1]),
           (''models'', ModelsItem 2)]"
    by (simp add: run_defs demo_defs upt_conv_Cons)
  show ?thesis
    using h m f record_written [OF h e] by (simp add: demo_env_def demo_args_def)
qed

subsection \<open>Training cells against cell numbers\<close>

text \<open>
  Line 91 compares the cell number of an entry with the training cells themselves, which
  are indices below the number of cell ids; \<^verbatim>\<open>cell_ids\<close> is used for its length only.
\<close>

lemma training_entries_filter:
  "training_entries tc data = Inr kept \<Longrightarrow>
   kept = filter (\<lambda>entry. \<exists>c \<in> set tc. cell_num entry = Some c) data"
  by (induction data arbitrary: kept) (auto split: option.splits sum.splits)

text \<open>
  When the cell ids are \<open>0, \<dots>, N - 1\<close>, an index is the cell id it selects, and the
  entries kept are those of the spec's reading. The registry produces such cell ids when
  it numbers entries that are distinct objects.
\<close>

lemma spec_training_entries_contiguous:
  assumes "set tc \<subseteq> {0..<int N}" and "training_entries tc data = Inr kept"
  shows "kept = spec_training_entries (map int [0..<N]) tc data"
proof -
  have "(\<exists>c \<in> set tc. cell_num entry = Some c) =
        (\<exists>i \<in> set tc. 0 \<le> i \<and> nat i < length (map int [0..<N]) \<and>
           cell_num entry = Some (map int [0..<N] ! nat i))" for entry :: "'a entry"
  proof -
    have idx: "0 \<le> i \<and> nat i < length (map int [0..<N]) \<and> map int [0..<N] ! nat i = i"
      if "i \<in> set tc" for i
    proof -
      have "0 \<le> i" "i < int N" using assms(1) that by auto
      then show ?thesis by (simp add: nat_less_iff)
    qed
    show ?thesis
      by (metis idx)
  qed
  then show ?thesis
    using training_entries_filter [OF assms(2)] by (simp add: spec_training_entries_def)
qed

lemma cell_nums_map:
  "(\<forall>x \<in> set xs. cell_num (g x) = Some (h x)) \<Longrightarrow> cell_nums (map g xs) = Inr (map h xs)"
  by (induction xs) simp_all

lemma unique_upt: "unique (map int [0..<n]) = map int [0..<n]"
proof -
  have "sorted (map int [0..<n])"
    by (simp add: sorted_map)
  moreover have "distinct (map int [0..<n])"
    by (simp add: distinct_map inj_on_def)
  moreover have "array_dtype (map int [0..<n]) \<noteq> Float64"
  proof -
    have "(\<forall>c \<in> set (map int [0..<n]). fits_uint64 c) \<or>
          (\<exists>c \<in> set (map int [0..<n]). \<not> fits_int64 c \<and> \<not> fits_uint64 c)"
    proof (cases "\<forall>c \<in> set (map int [0..<n]). fits_uint64 c")
      case True
      then show ?thesis by simp
    next
      case False
      then obtain c where c: "c \<in> set (map int [0..<n])" "\<not> fits_uint64 c" by blast
      then have "0 \<le> c" by auto
      with c(2) have "\<not> fits_int64 c" by (simp add: fits_uint64_def fits_int64_def)
      with c show ?thesis by blast
    qed
    then show ?thesis unfolding array_dtype_Float64 by blast
  qed
  ultimately show ?thesis
    by (simp add: unique_def distinct_remdups_id sorted_sort_id)
qed

lemma registry_assigned_ids:
  assumes "data \<noteq> []" and "cell_num (hd data) = None" and "distinct (map obj data)"
    and "cell_registry data = Inr data'"
  shows "collect_cell_ids data' = Inr (map int [0..<length data])"
proof -
  have "data' = map (\<lambda>k. (data ! k)\<lparr>cell_num := Some (int k)\<rparr>) [0..<length data]"
    using cell_registry_distinct [OF assms(1-3)] assms(4) by simp
  then have "cell_nums data' = Inr (map int [0..<length data])"
    using cell_nums_map [of "[0..<length data]" "\<lambda>k. (data ! k)\<lparr>cell_num := Some (int k)\<rparr>" int]
    by simp
  then show ?thesis
    by (simp add: collect_cell_ids_def unique_upt)
qed

text \<open>
  C1, at entries labelled with the cells 1, 1 and 2 and one training cell requested. The
  cell ids are 1 and 2. When the selection returns the index 0, the spec's reading keeps
  the two entries of cell 1, the cell id at index 0, and the script hands the trainer no
  entry at all. When the selection returns the index 1, the spec's reading keeps the
  entry of cell 2, and the script hands over the two entries of cell 1.
\<close>

theorem selected_cell_failing_input:
  "collect_cell_ids labelled = Inr [1, 2] \<and>
   fst (bindE (seed_generators demo_env (demo_args\<lparr>num_train := 1\<rparr>))
          (\<lambda>_. select_cells demo_env (demo_args\<lparr>num_train := 1\<rparr>)) demo_state) =
     Inr (labelled, [0]) \<and>
   map fst (train_calls (snd (main demo_env (demo_args\<lparr>num_train := 1\<rparr>) demo_state))) = [[]] \<and>
   spec_training_entries [1, 2] [0] labelled =
     [\<lparr>obj = 0, cell_num = Some 1, other_keys = ''a''\<rparr>,
      \<lparr>obj = 1, cell_num = Some 1, other_keys = ''b''\<rparr>] \<and>
   fst (bindE (seed_generators demo_env (demo_args\<lparr>num_train := 1, seed := 1\<rparr>))
          (\<lambda>_. select_cells demo_env (demo_args\<lparr>num_train := 1, seed := 1\<rparr>)) demo_state) =
     Inr (labelled, [1]) \<and>
   map fst (train_calls
      (snd (main demo_env (demo_args\<lparr>num_train := 1, seed := 1\<rparr>) demo_state))) =
     [[\<lparr>obj = 0, cell_num = Some 1, other_keys = ''a''\<rparr>,
       \<lparr>obj = 1, cell_num = Some 1, other_keys = ''b''\<rparr>]] \<and>
   spec_training_entries [1, 2] [1] labelled =
     [\<lparr>obj = 2, cell_num = Some 2, other_keys = ''c''\<rparr>]"
  by (simp add: run_defs demo_defs upt_conv_Cons spec_training_entries_def)

text \<open>
  C2, at the same entries with no training count requested. The cell ids are 1 and 2, the
  training cells are \<^verbatim>\<open>range(2)\<close>, that is 0 and 1, and the trainer receives the two
  entries of cell 1 only: the entry of cell 2 takes no part in training.
\<close>

theorem all_cells_failing_input:
  "num_train demo_args = 0 \<and>
   collect_cell_ids labelled = Inr [1, 2] \<and>
   fst (bindE (seed_generators demo_env demo_args) (\<lambda>_. select_cells demo_env demo_args)
          demo_state) =
     Inr (labelled, [0, 1]) \<and>
   map fst (train_calls (snd (main demo_env demo_args demo_state))) =
     [[\<lparr>obj = 0, cell_num = Some 1, other_keys = ''a''\<rparr>,
       \<lparr>obj = 1, cell_num = Some 1, other_keys = ''b''\<rparr>]] \<and>
   map fst (train_calls (snd (main demo_env demo_args demo_state))) \<noteq> [labelled]"
  by (simp add: run_defs demo_defs upt_conv_Cons)

end
